theory Spec2Isabelle
  imports Main
begin

section \<open>Values of the host framework\<close>

text \<open>
  A \<^verbatim>\<open>types.String\<close> of the plugin framework is null, unknown or a known string.
  \<^verbatim>\<open>ValueString()\<close> returns the known string and the empty string otherwise.
\<close>

datatype tf_string = StringNull | StringUnknown | StringValue string

fun ValueString :: "tf_string \<Rightarrow> string" where
  "ValueString (StringValue s) = s"
| "ValueString StringNull = ''''"
| "ValueString StringUnknown = ''''"

fun IsNull :: "tf_string \<Rightarrow> bool" where
  "IsNull StringNull = True"
| "IsNull _ = False"

fun IsUnknown :: "tf_string \<Rightarrow> bool" where
  "IsUnknown StringUnknown = True"
| "IsUnknown _ = False"

text \<open>
  Diagnostics are a list of errors and warnings, each with a summary and a detail.
  \<^verbatim>\<open>Append\<close> skips a diagnostic the list already holds; \<^verbatim>\<open>AddError\<close> appends one
  error diagnostic; \<^verbatim>\<open>HasError\<close> asks whether any entry is an error.
\<close>

datatype diagnostic = ErrorDiagnostic string string | WarningDiagnostic string string

fun is_error :: "diagnostic \<Rightarrow> bool" where
  "is_error (ErrorDiagnostic _ _) = True"
| "is_error (WarningDiagnostic _ _) = False"

fun Append :: "diagnostic list \<Rightarrow> diagnostic list \<Rightarrow> diagnostic list" where
  "Append diags [] = diags"
| "Append diags (d # ds) = Append (if List.member diags d then diags else diags @ [d]) ds"

definition AddError :: "diagnostic list \<Rightarrow> string \<Rightarrow> string \<Rightarrow> diagnostic list" where
  "AddError diags summary detail = Append diags [ErrorDiagnostic summary detail]"

definition HasError :: "diagnostic list \<Rightarrow> bool" where
  "HasError diags = list_ex is_error diags"

text \<open>
  What \<^verbatim>\<open>req.Plan.Get(ctx, &data)\<close>, \<^verbatim>\<open>req.State.Get\<close> and \<^verbatim>\<open>req.Config.Get\<close> hand
  to a handler: the diagnostics of the decoding and the decoded record.
\<close>

record 'm decoded =
  get_diags :: "diagnostic list"
  get_value :: 'm

section \<open>Go errors\<close>

text \<open>
  An error value carries the text of its \<^verbatim>\<open>Error()\<close> method. It is a
  \<^verbatim>\<open>*googleapi.Error\<close> with its HTTP status code, some other error, or an error wrapping
  another one. \<^verbatim>\<open>errors.As(err, &googleErr)\<close> walks the chain to the first
  \<^verbatim>\<open>*googleapi.Error\<close>.
\<close>

datatype go_error =
    GoogleapiError int string
  | OtherError string
  | WrapError string go_error

fun Error :: "go_error \<Rightarrow> string" where
  "Error (GoogleapiError code text) = text"
| "Error (OtherError text) = text"
| "Error (WrapError text inner) = text"

fun errors_As :: "go_error \<Rightarrow> int option" where
  "errors_As (GoogleapiError code text) = Some code"
| "errors_As (OtherError text) = None"
| "errors_As (WrapError text inner) = errors_As inner"

section \<open>The Directory API client\<close>

text \<open>
  The fields of \<^verbatim>\<open>admin.Group\<close> the provider reads or writes. A field a struct literal
  leaves out holds Go's zero value, the empty string.
\<close>

record admin_Group =
  Group_Email :: string
  Group_Name :: string
  Group_Description :: string
  Group_Id :: string

text \<open>
  The four calls \<^verbatim>\<open>adminService.Groups.X(...).Context(ctx).Do()\<close> the handlers make,
  as the answers of the remote service.
\<close>

record admin_Service =
  Groups_Insert :: "admin_Group \<Rightarrow> go_error + admin_Group"
  Groups_Get :: "string \<Rightarrow> go_error + admin_Group"
  Groups_Update :: "string \<Rightarrow> admin_Group \<Rightarrow> go_error + admin_Group"
  Groups_Delete :: "string \<Rightarrow> go_error option"

text \<open>The requests a handler issued, in order: the method, its key and its body.\<close>

datatype api_call =
    Call_Groups_Insert admin_Group
  | Call_Groups_Get string
  | Call_Groups_Update string admin_Group
  | Call_Groups_Delete string
  | Call_Policies_Get string

fun call_key :: "api_call \<Rightarrow> string option" where
  "call_key (Call_Groups_Insert body) = None"
| "call_key (Call_Groups_Get key) = Some key"
| "call_key (Call_Groups_Update key body) = Some key"
| "call_key (Call_Groups_Delete key) = Some key"
| "call_key (Call_Policies_Get key) = Some key"

fun call_body :: "api_call \<Rightarrow> admin_Group option" where
  "call_body (Call_Groups_Insert body) = Some body"
| "call_body (Call_Groups_Get key) = None"
| "call_body (Call_Groups_Update key body) = Some body"
| "call_body (Call_Groups_Delete key) = None"
| "call_body (Call_Policies_Get key) = None"

text \<open>
  What a handler leaves behind: the diagnostics of the response, the record it wrote
  with \<^verbatim>\<open>resp.State.Set\<close> (\<open>None\<close> when it wrote none) and the API requests it
  issued. Writing a record of the declared model to the state adds no diagnostic; log
  lines have no part in any result and are left out.
\<close>

record 'm handled =
  Diagnostics :: "diagnostic list"
  State :: "'m option"
  Calls :: "api_call list"

section \<open>The group resource\<close>

record GroupResourceModel =
  grm_Name :: tf_string
  grm_Email :: tf_string
  grm_Description :: tf_string
  grm_Id :: tf_string

text \<open>
  The handlers run after \<^verbatim>\<open>Configure\<close> has stored the service; \<open>srv\<close> is that service.
\<close>

definition GroupResource_Create ::
  "admin_Service \<Rightarrow> GroupResourceModel decoded \<Rightarrow> GroupResourceModel handled" where
  "GroupResource_Create srv req =
    (let diags = Append [] (get_diags req); data = get_value req in
     if HasError diags
     then \<lparr>Diagnostics = diags, State = None, Calls = []\<rparr>
     else
       let ng = \<lparr>Group_Email = ValueString (grm_Email data),
                  Group_Name = ValueString (grm_Name data),
                  Group_Description = ValueString (grm_Description data),
                  Group_Id = ''''\<rparr>
       in case Groups_Insert srv ng of
            Inl err \<Rightarrow>
              \<lparr>Diagnostics = AddError diags ''Error creating Google Group''
                 (''Could not create group '' @ ValueString (grm_Email data) @ '': '' @ Error err),
               State = None, Calls = [Call_Groups_Insert ng]\<rparr>
          | Inr res \<Rightarrow>
              \<lparr>Diagnostics = diags,
               State = Some (data\<lparr>grm_Id := StringValue (Group_Id res),
                                  grm_Email := StringValue (Group_Email res),
                                  grm_Name := StringValue (Group_Name res),
                                  grm_Description := StringValue (Group_Description res)\<rparr>),
               Calls = [Call_Groups_Insert ng]\<rparr>)"

definition GroupResource_Read ::
  "admin_Service \<Rightarrow> GroupResourceModel decoded \<Rightarrow> GroupResourceModel handled" where
  "GroupResource_Read srv req =
    (let diags = Append [] (get_diags req); data = get_value req in
     if HasError diags
     then \<lparr>Diagnostics = diags, State = None, Calls = []\<rparr>
     else
       case Groups_Get srv (ValueString (grm_Name data)) of
         Inl err \<Rightarrow>
           \<lparr>Diagnostics = AddError diags ''Client Error''
              (''Unable to read group '' @ [CHR 0x27] @ ValueString (grm_Name data) @ [CHR 0x27]
                 @ '', got error: '' @ Error err),
            State = None, Calls = [Call_Groups_Get (ValueString (grm_Name data))]\<rparr>
       | Inr ng \<Rightarrow>
           \<lparr>Diagnostics = diags,
            State = Some (data\<lparr>grm_Id := StringValue (Group_Id ng),
                               grm_Email := StringValue (Group_Email ng),
                               grm_Description := StringValue (Group_Description ng),
                               grm_Name := StringValue (Group_Name ng)\<rparr>),
            Calls = [Call_Groups_Get (ValueString (grm_Name data))]\<rparr>)"

definition GroupResource_Update ::
  "admin_Service \<Rightarrow> GroupResourceModel decoded \<Rightarrow> GroupResourceModel handled" where
  "GroupResource_Update srv req =
    (let diags = Append [] (get_diags req); data = get_value req in
     if HasError diags
     then \<lparr>Diagnostics = diags, State = None, Calls = []\<rparr>
     else
       let gu = \<lparr>Group_Email = ValueString (grm_Email data),
                  Group_Name = ValueString (grm_Name data),
                  Group_Description = ValueString (grm_Description data),
                  Group_Id = ''''\<rparr>
       in case Groups_Update srv (ValueString (grm_Id data)) gu of
            Inl err \<Rightarrow>
              \<lparr>Diagnostics = AddError diags ''Error Updating Google Group''
                 (''Could not update group ID '' @ ValueString (grm_Id data) @ '': '' @ Error err),
               State = None, Calls = [Call_Groups_Update (ValueString (grm_Id data)) gu]\<rparr>
          | Inr res \<Rightarrow>
              \<lparr>Diagnostics = diags,
               State = Some (data\<lparr>grm_Email := StringValue (Group_Email res),
                                  grm_Name := StringValue (Group_Name res),
                                  grm_Description := StringValue (Group_Description res),
                                  grm_Id := StringValue (Group_Id res)\<rparr>),
               Calls = [Call_Groups_Update (ValueString (grm_Id data)) gu]\<rparr>)"

text \<open>
  \<^verbatim>\<open>Delete\<close> writes no state. An error whose chain holds a \<^verbatim>\<open>*googleapi.Error\<close> with
  code 404 is only logged and the handler returns; any other error becomes an
  error diagnostic.
\<close>

definition GroupResource_Delete ::
  "admin_Service \<Rightarrow> GroupResourceModel decoded \<Rightarrow> GroupResourceModel handled" where
  "GroupResource_Delete srv req =
    (let diags = Append [] (get_diags req); data = get_value req in
     if HasError diags
     then \<lparr>Diagnostics = diags, State = None, Calls = []\<rparr>
     else
       case Groups_Delete srv (ValueString (grm_Id data)) of
         Some err \<Rightarrow>
           if errors_As err = Some 404
           then \<lparr>Diagnostics = diags, State = None,
                 Calls = [Call_Groups_Delete (ValueString (grm_Id data))]\<rparr>
           else \<lparr>Diagnostics = AddError diags ''Error Deleting Google Group''
                   (''Could not delete group ID '' @ ValueString (grm_Id data) @ '': '' @ Error err),
                 State = None,
                 Calls = [Call_Groups_Delete (ValueString (grm_Id data))]\<rparr>
       | None \<Rightarrow>
           \<lparr>Diagnostics = diags, State = None,
            Calls = [Call_Groups_Delete (ValueString (grm_Id data))]\<rparr>)"

section \<open>The group data source\<close>

record GroupDataSourceModel =
  gdm_Name :: tf_string
  gdm_Email :: tf_string
  gdm_Description :: tf_string
  gdm_Id :: tf_string

definition GroupDataSource_Read ::
  "admin_Service \<Rightarrow> GroupDataSourceModel decoded \<Rightarrow> GroupDataSourceModel handled" where
  "GroupDataSource_Read srv req =
    (let diags = Append [] (get_diags req); data = get_value req in
     if HasError diags
     then \<lparr>Diagnostics = diags, State = None, Calls = []\<rparr>
     else
       case Groups_Get srv (ValueString (gdm_Name data)) of
         Inl err \<Rightarrow>
           \<lparr>Diagnostics = AddError diags ''Client Error''
              (''Unable to read group '' @ [CHR 0x27] @ ValueString (gdm_Name data) @ [CHR 0x27]
                 @ '', got error: '' @ Error err),
            State = None, Calls = [Call_Groups_Get (ValueString (gdm_Name data))]\<rparr>
       | Inr g \<Rightarrow>
           \<lparr>Diagnostics = diags,
            State = Some (data\<lparr>gdm_Id := StringValue (Group_Id g),
                               gdm_Email := StringValue (Group_Email g),
                               gdm_Description := StringValue (Group_Description g),
                               gdm_Name := StringValue (Group_Name g)\<rparr>),
            Calls = [Call_Groups_Get (ValueString (gdm_Name data))]\<rparr>)"

section \<open>The Cloud Identity policy data source\<close>

text \<open>
  The fields of \<^verbatim>\<open>cloudidentity.Policy\<close> and of the two structs it points to. A nil
  pointer is \<open>None\<close>. \<^verbatim>\<open>Setting.Value\<close> is raw JSON; the handler turns it into a string.
\<close>

record PolicyQuery =
  PolicyQuery_Group :: string
  PolicyQuery_OrgUnit :: string
  PolicyQuery_Query :: string

record Setting =
  Setting_Type :: string
  Setting_Value :: string

record Policy =
  Policy_Customer :: string
  Policy_Name :: string
  Policy_PolicyQuery :: "PolicyQuery option"
  Policy_Setting :: "Setting option"
  Policy_Type :: string

record cloudidentity_Service =
  Policies_Get :: "string \<Rightarrow> go_error + Policy"

record QueryModel =
  qm_Group :: tf_string
  qm_OrgUnit :: tf_string
  qm_Query :: tf_string

record SettingModel =
  sm_Type :: tf_string
  sm_Value :: tf_string

record CloudIdentityPolicyDataSourceModel =
  cip_Name :: tf_string
  cip_Customer :: tf_string
  cip_Type :: tf_string
  cip_Query :: "QueryModel option"
  cip_Setting :: "SettingModel option"
  cip_Id :: tf_string

definition CloudIdentityPolicyDataSource_Read ::
  "cloudidentity_Service \<Rightarrow> CloudIdentityPolicyDataSourceModel decoded
     \<Rightarrow> CloudIdentityPolicyDataSourceModel handled" where
  "CloudIdentityPolicyDataSource_Read srv req =
    (let diags = Append [] (get_diags req); data = get_value req in
     if HasError diags
     then \<lparr>Diagnostics = diags, State = None, Calls = []\<rparr>
     else
       let policyName = ValueString (cip_Name data) in
       case Policies_Get srv policyName of
         Inl err \<Rightarrow>
           \<lparr>Diagnostics = AddError diags ''Client Error''
              (''Unable to read Cloud Identity Policy '' @ [CHR 0x27] @ policyName @ [CHR 0x27]
                 @ '': '' @ Error err),
            State = None, Calls = [Call_Policies_Get policyName]\<rparr>
       | Inr policy \<Rightarrow>
           let data = data\<lparr>cip_Id := StringValue (Policy_Name policy)\<rparr>;
               data = data\<lparr>cip_Name := StringValue (Policy_Name policy)\<rparr>;
               data = data\<lparr>cip_Query := None\<rparr>;
               data = (case Policy_PolicyQuery policy of
                         None \<Rightarrow> data
                       | Some q \<Rightarrow>
                           data\<lparr>cip_Query := Some
                             \<lparr>qm_Group = StringValue (PolicyQuery_Group q),
                              qm_OrgUnit = StringValue (PolicyQuery_OrgUnit q),
                              qm_Query = StringValue (PolicyQuery_Query q)\<rparr>\<rparr>);
               data = data\<lparr>cip_Setting := None\<rparr>;
               data = (case Policy_Setting policy of
                         None \<Rightarrow> data
                       | Some st \<Rightarrow>
                           data\<lparr>cip_Setting := Some
                             \<lparr>sm_Type = StringValue (Setting_Type st),
                              sm_Value = StringValue (Setting_Value st)\<rparr>\<rparr>)
           in \<lparr>Diagnostics = diags, State = Some data,
               Calls = [Call_Policies_Get policyName]\<rparr>)"

section \<open>Provider configuration\<close>

text \<open>
  \<^verbatim>\<open>log.Fatalf\<close> prints its message and ends the process; a handler that comes back
  returns its response.
\<close>

datatype 'a process = Fatalf string | Returned 'a

record GoogleWorkspaceProviderModel =
  Credentials :: tf_string
  ImpersonatedUserEmail :: tf_string

text \<open>
  A \<^verbatim>\<open>jwt.Config\<close>: the key material read from the credentials, the scopes asked for
  and the subject to impersonate. The HTTP client built from it is identified with it.
\<close>

record JWTConfig =
  jwt_Key :: string
  jwt_Scopes :: "string list"
  jwt_Subject :: string

text \<open>The file system and the credential parser \<^verbatim>\<open>Configure\<close> calls.\<close>

record provider_env =
  ReadFile :: "string \<Rightarrow> go_error + string"
  JWTConfigFromJSON :: "string \<Rightarrow> string list \<Rightarrow> go_error + JWTConfig"

definition AdminDirectoryGroupScope :: string where
  "AdminDirectoryGroupScope = ''https://www.googleapis.com/auth/admin.directory.group''"

definition AdminDirectoryUserScope :: string where
  "AdminDirectoryUserScope = ''https://www.googleapis.com/auth/admin.directory.user''"

record ConfigureResponse =
  cfg_Diagnostics :: "diagnostic list"
  DataSourceData :: "JWTConfig option"
  ResourceData :: "JWTConfig option"

definition GoogleWorkspaceProvider_Configure ::
  "provider_env \<Rightarrow> GoogleWorkspaceProviderModel decoded \<Rightarrow> ConfigureResponse process" where
  "GoogleWorkspaceProvider_Configure env req =
    (let diags = Append [] (get_diags req); data = get_value req in
     if HasError diags
     then Returned \<lparr>cfg_Diagnostics = diags, DataSourceData = None, ResourceData = None\<rparr>
     else
       case ReadFile env (ValueString (Credentials data)) of
         Inl err \<Rightarrow> Fatalf (''Unable to read client secret file: '' @ Error err)
       | Inr b \<Rightarrow>
           (case JWTConfigFromJSON env b [AdminDirectoryGroupScope, AdminDirectoryUserScope] of
              Inl err \<Rightarrow>
                Returned \<lparr>cfg_Diagnostics = AddError diags ''Unable to parse service account JSON''
                   (''The provided credentials file is not valid JSON or missing fields: ''
                      @ Error err),
                  DataSourceData = None, ResourceData = None\<rparr>
            | Inr config \<Rightarrow>
                if IsNull (ImpersonatedUserEmail data) \<or> IsUnknown (ImpersonatedUserEmail data)
                then Returned \<lparr>cfg_Diagnostics = AddError diags ''Missing Impersonated User Email''
                        (''When using Domain-Wide Delegation, you must provide the email ''
                           @ ''of the admin user to impersonate.''),
                       DataSourceData = None, ResourceData = None\<rparr>
                else
                  let client = config\<lparr>jwt_Subject := ValueString (ImpersonatedUserEmail data)\<rparr>
                  in Returned \<lparr>cfg_Diagnostics = diags,
                       DataSourceData = Some client, ResourceData = Some client\<rparr>))"

section \<open>Sample services and requests\<close>

text \<open>
  A directory that holds at most one group. It assigns the identifier on insert, finds a
  group by its identifier or its email address, answers an update with the body it was
  sent under the stored identifier, and answers every unknown key with a 404 error.
\<close>

definition not_found :: go_error where
  "not_found = GoogleapiError 404 ''googleapi: Error 404: Resource Not Found: groupKey, notFound''"

definition forbidden :: go_error where
  "forbidden = GoogleapiError 403 ''googleapi: Error 403: Not Authorized to access this resource/api, forbidden''"

definition stored_group :: admin_Group where
  "stored_group = \<lparr>Group_Email = ''team@vandebron.nl'', Group_Name = ''team@vandebron.nl'',
                    Group_Description = ''Team'', Group_Id = ''03abc''\<rparr>"

definition directory :: "admin_Group option \<Rightarrow> admin_Service" where
  "directory stored =
     \<lparr>Groups_Insert = (\<lambda>ng. Inr (ng\<lparr>Group_Id := ''03abc''\<rparr>)),
      Groups_Get = (\<lambda>key. case stored of
                       None \<Rightarrow> Inl not_found
                     | Some g \<Rightarrow> if key = Group_Id g \<or> key = Group_Email g
                                then Inr g else Inl not_found),
      Groups_Update = (\<lambda>key gu. case stored of
                       None \<Rightarrow> Inl not_found
                     | Some g \<Rightarrow> if key = Group_Id g \<or> key = Group_Email g
                                then Inr (gu\<lparr>Group_Id := Group_Id g\<rparr>) else Inl not_found),
      Groups_Delete = (\<lambda>key. case stored of
                       None \<Rightarrow> Some not_found
                     | Some g \<Rightarrow> if key = Group_Id g \<or> key = Group_Email g
                                then None else Some not_found)\<rparr>"

text \<open>A service that answers every call with the same error.\<close>

definition failing :: "go_error \<Rightarrow> admin_Service" where
  "failing err =
     \<lparr>Groups_Insert = (\<lambda>ng. Inl err), Groups_Get = (\<lambda>key. Inl err),
      Groups_Update = (\<lambda>key gu. Inl err), Groups_Delete = (\<lambda>key. Some err)\<rparr>"


text \<open>The plan of the group before it exists, and the plan of a later change.\<close>

definition create_plan :: "GroupResourceModel decoded" where
  "create_plan =
     \<lparr>get_diags = [],
      get_value = \<lparr>grm_Name = StringValue ''team@vandebron.nl'',
                    grm_Email = StringValue ''team@vandebron.nl'',
                    grm_Description = StringNull, grm_Id = StringUnknown\<rparr>\<rparr>"

definition update_plan :: "GroupResourceModel decoded" where
  "update_plan =
     \<lparr>get_diags = [],
      get_value = \<lparr>grm_Name = StringValue ''Platform team'',
                    grm_Email = StringValue ''team@vandebron.nl'',
                    grm_Description = StringNull, grm_Id = StringValue ''03abc''\<rparr>\<rparr>"

definition prior_state :: "GroupResourceModel decoded" where
  "prior_state =
     \<lparr>get_diags = [],
      get_value = \<lparr>grm_Name = StringValue ''team@vandebron.nl'',
                    grm_Email = StringValue ''team@vandebron.nl'',
                    grm_Description = StringValue ''Team'', grm_Id = StringValue ''03abc''\<rparr>\<rparr>"

definition group_config :: "GroupDataSourceModel decoded" where
  "group_config =
     \<lparr>get_diags = [],
      get_value = \<lparr>gdm_Name = StringValue ''team@vandebron.nl'', gdm_Email = StringNull,
                    gdm_Description = StringNull, gdm_Id = StringNull\<rparr>\<rparr>"

text \<open>A policy service that knows one policy, and the configuration that asks for it.\<close>

definition policies :: "Policy \<Rightarrow> cloudidentity_Service" where
  "policies p =
     \<lparr>Policies_Get = (\<lambda>name. if name = Policy_Name p then Inr p else Inl not_found)\<rparr>"

definition query_only_policy :: Policy where
  "query_only_policy =
     \<lparr>Policy_Customer = ''customers/C02'', Policy_Name = ''policies/abc'',
      Policy_PolicyQuery = Some \<lparr>PolicyQuery_Group = [], PolicyQuery_OrgUnit = ''orgUnits/1'',
                                 PolicyQuery_Query = ''true''\<rparr>,
      Policy_Setting = None, Policy_Type = ''ADMIN''\<rparr>"

definition full_policy :: Policy where
  "full_policy =
     \<lparr>Policy_Customer = ''customers/C01'', Policy_Name = ''policies/abc'',
      Policy_PolicyQuery = Some \<lparr>PolicyQuery_Group = [], PolicyQuery_OrgUnit = ''orgUnits/1'',
                                 PolicyQuery_Query = ''true''\<rparr>,
      Policy_Setting = Some \<lparr>Setting_Type = ''settings/gmail.x'', Setting_Value = ''{}''\<rparr>,
      Policy_Type = ''ADMIN''\<rparr>"

definition policy_config :: "CloudIdentityPolicyDataSourceModel decoded" where
  "policy_config =
     \<lparr>get_diags = [],
      get_value = \<lparr>cip_Name = StringValue ''policies/abc'',
                    cip_Customer = StringValue ''customers/C01'', cip_Type = StringNull,
                    cip_Query = None, cip_Setting = None, cip_Id = StringNull\<rparr>\<rparr>"

text \<open>
  A credentials file that cannot be read, one that holds no service-account JSON, and
  the provider configuration that names it.
\<close>

definition unreadable_file :: provider_env where
  "unreadable_file =
     \<lparr>ReadFile = (\<lambda>path. Inl (OtherError ''open credentials.json: no such file or directory'')),
      JWTConfigFromJSON = (\<lambda>b scopes. Inl (OtherError ''unexpected end of JSON input''))\<rparr>"

definition malformed_file :: provider_env where
  "malformed_file =
     \<lparr>ReadFile = (\<lambda>path. Inr ''{''),
      JWTConfigFromJSON = (\<lambda>b scopes. Inl (OtherError ''unexpected end of JSON input''))\<rparr>"

definition provider_config :: "GoogleWorkspaceProviderModel decoded" where
  "provider_config =
     \<lparr>get_diags = [],
      get_value = \<lparr>Credentials = StringValue ''credentials.json'',
                    ImpersonatedUserEmail = StringValue ''admin@vandebron.nl''\<rparr>\<rparr>"

definition forged_plan :: "GroupResourceModel decoded" where
  "forged_plan =
     \<lparr>get_diags = [],
      get_value = \<lparr>grm_Name = StringValue ''ops@vandebron.nl'',
                    grm_Email = StringValue ''ops@vandebron.nl'',
                    grm_Description = StringValue ''Ops'',
                    grm_Id = StringValue ''chosen-by-client''\<rparr>\<rparr>"

section \<open>Diagnostics and successful handlers\<close>

lemma set_Append: "set (Append diags ds) = set diags \<union> set ds"
  by (induction ds arbitrary: diags) auto

lemma HasError_Append: "HasError (Append diags ds) = (HasError diags \<or> HasError ds)"
  by (auto simp: HasError_def list_ex_iff set_Append)

lemma HasError_Nil: "\<not> HasError []"
  by (simp add: HasError_def)

lemma HasError_AddError: "HasError (AddError diags summary detail)"
  unfolding AddError_def HasError_Append by (simp add: HasError_def)

lemma AddError_member: "ErrorDiagnostic summary detail \<in> set (AddError diags summary detail)"
  unfolding AddError_def set_Append by simp

lemma decoded_ok: "\<not> HasError (get_diags req) \<Longrightarrow> \<not> HasError (Append [] (get_diags req))"
  by (simp add: HasError_Append HasError_Nil)

text \<open>
  A handler that wrote a record got an answer from the API, and the record is built from
  that answer.
\<close>

lemma GroupResource_Read_success:
  assumes "State (GroupResource_Read srv req) = Some r"
  shows "\<exists>ng. Groups_Get srv (ValueString (grm_Name (get_value req))) = Inr ng \<and>
           r = \<lparr>grm_Name = StringValue (Group_Name ng),
                grm_Email = StringValue (Group_Email ng),
                grm_Description = StringValue (Group_Description ng),
                grm_Id = StringValue (Group_Id ng)\<rparr>"
  using assms
  by (auto simp: GroupResource_Read_def Let_def split: if_splits sum.splits)

lemma GroupDataSource_Read_success:
  assumes "State (GroupDataSource_Read srv req) = Some r"
  shows "\<exists>g. Groups_Get srv (ValueString (gdm_Name (get_value req))) = Inr g \<and>
           r = \<lparr>gdm_Name = StringValue (Group_Name g),
                gdm_Email = StringValue (Group_Email g),
                gdm_Description = StringValue (Group_Description g),
                gdm_Id = StringValue (Group_Id g)\<rparr>"
  using assms
  by (auto simp: GroupDataSource_Read_def Let_def split: if_splits sum.splits)

lemma Policy_Read_success:
  assumes "State (CloudIdentityPolicyDataSource_Read srv req) = Some r"
  shows "\<exists>policy. Policies_Get srv (ValueString (cip_Name (get_value req))) = Inr policy \<and>
           r = (get_value req)
                 \<lparr>cip_Id := StringValue (Policy_Name policy),
                  cip_Name := StringValue (Policy_Name policy),
                  cip_Query := map_option
                     (\<lambda>q. \<lparr>qm_Group = StringValue (PolicyQuery_Group q),
                           qm_OrgUnit = StringValue (PolicyQuery_OrgUnit q),
                           qm_Query = StringValue (PolicyQuery_Query q)\<rparr>)
                     (Policy_PolicyQuery policy),
                  cip_Setting := map_option
                     (\<lambda>st. \<lparr>sm_Type = StringValue (Setting_Type st),
                            sm_Value = StringValue (Setting_Value st)\<rparr>)
                     (Policy_Setting policy)\<rparr>"
  using assms
  by (auto simp: CloudIdentityPolicyDataSource_Read_def Let_def
      split: if_splits sum.splits option.splits)

lemma full_policy_read:
  "State (CloudIdentityPolicyDataSource_Read (policies full_policy) policy_config)
      = Some \<lparr>cip_Name = StringValue ''policies/abc'',
               cip_Customer = StringValue ''customers/C01'', cip_Type = StringNull,
               cip_Query = Some \<lparr>qm_Group = StringValue [],
                                  qm_OrgUnit = StringValue ''orgUnits/1'',
                                  qm_Query = StringValue ''true''\<rparr>,
               cip_Setting = Some \<lparr>sm_Type = StringValue ''settings/gmail.x'',
                                    sm_Value = StringValue ''{}''\<rparr>,
               cip_Id = StringValue ''policies/abc''\<rparr>"
  by (simp add: CloudIdentityPolicyDataSource_Read_def policies_def full_policy_def
      policy_config_def HasError_def Let_def)

section \<open>The lookup keys of the group resource\<close>

text \<open>
  C1. When the request decodes without an error, \<^verbatim>\<open>Read\<close> issues exactly one call, a
  \<^verbatim>\<open>Groups.Get\<close> keyed by the name of the record, and \<^verbatim>\<open>Update\<close> issues exactly one
  call, a \<^verbatim>\<open>Groups.Update\<close> keyed by the id of the record (not by its name).
\<close>

theorem Read_key_name_Update_key_id:
  assumes "\<not> HasError (get_diags req)"
  shows "Calls (GroupResource_Read srv req)
           = [Call_Groups_Get (ValueString (grm_Name (get_value req)))] \<and>
         Calls (GroupResource_Update srv req)
           = [Call_Groups_Update (ValueString (grm_Id (get_value req)))
                \<lparr>Group_Email = ValueString (grm_Email (get_value req)),
                 Group_Name = ValueString (grm_Name (get_value req)),
                 Group_Description = ValueString (grm_Description (get_value req)),
                 Group_Id = []\<rparr>]"
  using decoded_ok [OF assms]
  by (simp add: GroupResource_Read_def GroupResource_Update_def Let_def split: sum.splits)

text \<open>
  The two calls for the plan that renames the stored group to \<open>Platform team\<close>: a get
  keyed by that name, and an update keyed by the id \<open>03abc\<close>.
\<close>

theorem Read_key_name_Update_key_id_witness:
  "Calls (GroupResource_Read (directory (Some stored_group)) update_plan)
     = [Call_Groups_Get ''Platform team''] \<and>
   Calls (GroupResource_Update (directory (Some stored_group)) update_plan)
     = [Call_Groups_Update ''03abc''
          \<lparr>Group_Email = ''team@vandebron.nl'', Group_Name = ''Platform team'',
           Group_Description = [], Group_Id = []\<rparr>]"
proof -
  have ok: "\<not> HasError (get_diags update_plan)"
    by (simp add: update_plan_def HasError_def)
  show ?thesis
    using Read_key_name_Update_key_id [OF ok, of "directory (Some stored_group)"]
    by (simp add: update_plan_def)
qed

text \<open>
  For that plan the update is keyed by \<open>03abc\<close>, the id, and not by the name of the
  record.
\<close>

theorem Update_key_is_not_name:
  "map call_key (Calls (GroupResource_Update (directory (Some stored_group)) update_plan))
     = [Some ''03abc''] \<and>
   map call_key (Calls (GroupResource_Update (directory (Some stored_group)) update_plan))
     \<noteq> [Some (ValueString (grm_Name (get_value update_plan)))]"
  by (simp add: GroupResource_Update_def update_plan_def directory_def stored_group_def
      HasError_def Let_def)

section \<open>The nested records of a policy\<close>

text \<open>
  C2. In the record of a successful policy read, the nested query is present exactly
  when the answer of the API carries a policy query, and the nested setting exactly when
  the answer carries a setting: each mirrors its own part of the answer.
\<close>

theorem Policy_nested_mirror_response:
  assumes "State (CloudIdentityPolicyDataSource_Read srv req) = Some r"
  shows "\<exists>policy. Policies_Get srv (ValueString (cip_Name (get_value req))) = Inr policy \<and>
           (cip_Query r = None) = (Policy_PolicyQuery policy = None) \<and>
           (cip_Setting r = None) = (Policy_Setting policy = None)"
  using Policy_Read_success [OF assms] by auto

text \<open>A policy that carries both parts is read with both.\<close>

theorem Policy_nested_mirror_response_witness:
  "map_option cip_Query
     (State (CloudIdentityPolicyDataSource_Read (policies full_policy) policy_config))
     \<noteq> Some None \<and>
   map_option cip_Setting
     (State (CloudIdentityPolicyDataSource_Read (policies full_policy) policy_config))
     \<noteq> Some None \<and>
   Policy_PolicyQuery full_policy \<noteq> None \<and> Policy_Setting full_policy \<noteq> None"
  using Policy_nested_mirror_response [OF full_policy_read] full_policy_read
  by (simp add: full_policy_def)

text \<open>
  A policy that carries a query and no setting is read with the query present and the
  setting absent.
\<close>

theorem Policy_query_without_setting:
  "map_option cip_Query
     (State (CloudIdentityPolicyDataSource_Read (policies query_only_policy) policy_config))
     = Some (Some \<lparr>qm_Group = StringValue [], qm_OrgUnit = StringValue ''orgUnits/1'',
                    qm_Query = StringValue ''true''\<rparr>) \<and>
   map_option cip_Setting
     (State (CloudIdentityPolicyDataSource_Read (policies query_only_policy) policy_config))
     = Some None"
  by (simp add: CloudIdentityPolicyDataSource_Read_def policies_def query_only_policy_def
      policy_config_def HasError_def Let_def)

section \<open>What a read refreshes\<close>

text \<open>
  C3. A successful read of the group resource and of the group data source sets name,
  email, description and id from the answer of the API. A successful read of a policy
  sets name, id, query and setting from the answer, and its customer keeps the value of
  the configuration.
\<close>

theorem Read_refreshes_from_response:
  "(State (GroupResource_Read srv req) = Some r \<longrightarrow>
      (\<exists>ng. Groups_Get srv (ValueString (grm_Name (get_value req))) = Inr ng \<and>
         r = \<lparr>grm_Name = StringValue (Group_Name ng),
              grm_Email = StringValue (Group_Email ng),
              grm_Description = StringValue (Group_Description ng),
              grm_Id = StringValue (Group_Id ng)\<rparr>)) \<and>
   (State (GroupDataSource_Read srv dreq) = Some d \<longrightarrow>
      (\<exists>g. Groups_Get srv (ValueString (gdm_Name (get_value dreq))) = Inr g \<and>
         d = \<lparr>gdm_Name = StringValue (Group_Name g),
              gdm_Email = StringValue (Group_Email g),
              gdm_Description = StringValue (Group_Description g),
              gdm_Id = StringValue (Group_Id g)\<rparr>)) \<and>
   (State (CloudIdentityPolicyDataSource_Read psrv preq) = Some p \<longrightarrow>
      (\<exists>policy. Policies_Get psrv (ValueString (cip_Name (get_value preq))) = Inr policy \<and>
         cip_Name p = StringValue (Policy_Name policy) \<and>
         cip_Id p = StringValue (Policy_Name policy) \<and>
         cip_Query p = map_option
            (\<lambda>q. \<lparr>qm_Group = StringValue (PolicyQuery_Group q),
                  qm_OrgUnit = StringValue (PolicyQuery_OrgUnit q),
                  qm_Query = StringValue (PolicyQuery_Query q)\<rparr>)
            (Policy_PolicyQuery policy) \<and>
         cip_Setting p = map_option
            (\<lambda>st. \<lparr>sm_Type = StringValue (Setting_Type st),
                   sm_Value = StringValue (Setting_Value st)\<rparr>)
            (Policy_Setting policy) \<and>
         cip_Customer p = cip_Customer (get_value preq)))"
proof (intro conjI impI)
  assume "State (GroupResource_Read srv req) = Some r"
  then show "\<exists>ng. Groups_Get srv (ValueString (grm_Name (get_value req))) = Inr ng \<and>
         r = \<lparr>grm_Name = StringValue (Group_Name ng),
              grm_Email = StringValue (Group_Email ng),
              grm_Description = StringValue (Group_Description ng),
              grm_Id = StringValue (Group_Id ng)\<rparr>"
    by (rule GroupResource_Read_success)
next
  assume "State (GroupDataSource_Read srv dreq) = Some d"
  then show "\<exists>g. Groups_Get srv (ValueString (gdm_Name (get_value dreq))) = Inr g \<and>
         d = \<lparr>gdm_Name = StringValue (Group_Name g),
              gdm_Email = StringValue (Group_Email g),
              gdm_Description = StringValue (Group_Description g),
              gdm_Id = StringValue (Group_Id g)\<rparr>"
    by (rule GroupDataSource_Read_success)
next
  assume "State (CloudIdentityPolicyDataSource_Read psrv preq) = Some p"
  from Policy_Read_success [OF this]
  show "\<exists>policy. Policies_Get psrv (ValueString (cip_Name (get_value preq))) = Inr policy \<and>
         cip_Name p = StringValue (Policy_Name policy) \<and>
         cip_Id p = StringValue (Policy_Name policy) \<and>
         cip_Query p = map_option
            (\<lambda>q. \<lparr>qm_Group = StringValue (PolicyQuery_Group q),
                  qm_OrgUnit = StringValue (PolicyQuery_OrgUnit q),
                  qm_Query = StringValue (PolicyQuery_Query q)\<rparr>)
            (Policy_PolicyQuery policy) \<and>
         cip_Setting p = map_option
            (\<lambda>st. \<lparr>sm_Type = StringValue (Setting_Type st),
                   sm_Value = StringValue (Setting_Value st)\<rparr>)
            (Policy_Setting policy) \<and>
         cip_Customer p = cip_Customer (get_value preq)"
    by auto
qed

text \<open>
  The three reads against a directory whose group has a new description, and against a
  policy service: every field of the group comes from the directory, also the ones the
  prior record held otherwise.
\<close>

theorem Read_refreshes_from_response_witness:
  "State (GroupResource_Read
            (directory (Some (stored_group\<lparr>Group_Description := ''Platform''\<rparr>))) prior_state)
     = Some \<lparr>grm_Name = StringValue ''team@vandebron.nl'',
             grm_Email = StringValue ''team@vandebron.nl'',
             grm_Description = StringValue ''Platform'',
             grm_Id = StringValue ''03abc''\<rparr> \<and>
   State (GroupDataSource_Read
            (directory (Some (stored_group\<lparr>Group_Description := ''Platform''\<rparr>))) group_config)
     = Some \<lparr>gdm_Name = StringValue ''team@vandebron.nl'',
             gdm_Email = StringValue ''team@vandebron.nl'',
             gdm_Description = StringValue ''Platform'',
             gdm_Id = StringValue ''03abc''\<rparr> \<and>
   map_option cip_Customer
     (State (CloudIdentityPolicyDataSource_Read (policies full_policy) policy_config))
     = Some (cip_Customer (get_value policy_config))"
proof -
  let ?srv = "directory (Some (stored_group\<lparr>Group_Description := ''Platform''\<rparr>))"
  let ?r = "\<lparr>grm_Name = StringValue ''team@vandebron.nl'',
             grm_Email = StringValue ''team@vandebron.nl'',
             grm_Description = StringValue ''Platform'',
             grm_Id = StringValue ''03abc''\<rparr>"
  let ?d = "\<lparr>gdm_Name = StringValue ''team@vandebron.nl'',
             gdm_Email = StringValue ''team@vandebron.nl'',
             gdm_Description = StringValue ''Platform'',
             gdm_Id = StringValue ''03abc''\<rparr>"
  let ?p = "\<lparr>cip_Name = StringValue ''policies/abc'',
             cip_Customer = StringValue ''customers/C01'', cip_Type = StringNull,
             cip_Query = Some \<lparr>qm_Group = StringValue [],
                                qm_OrgUnit = StringValue ''orgUnits/1'',
                                qm_Query = StringValue ''true''\<rparr>,
             cip_Setting = Some \<lparr>sm_Type = StringValue ''settings/gmail.x'',
                                  sm_Value = StringValue ''{}''\<rparr>,
             cip_Id = StringValue ''policies/abc''\<rparr>"
  have r: "State (GroupResource_Read ?srv prior_state) = Some ?r"
    by (simp add: GroupResource_Read_def directory_def stored_group_def prior_state_def
        HasError_def Let_def)
  have d: "State (GroupDataSource_Read ?srv group_config) = Some ?d"
    by (simp add: GroupDataSource_Read_def directory_def stored_group_def group_config_def
        HasError_def Let_def)
  show ?thesis
    using Read_refreshes_from_response [of ?srv prior_state ?r group_config ?d
        "policies full_policy" policy_config ?p] r d full_policy_read
    by (simp add: policy_config_def)
qed

text \<open>
  The policy service answers with customer \<open>customers/C02\<close>; the record read keeps the
  configured \<open>customers/C01\<close>.
\<close>

theorem Policy_read_keeps_customer:
  "Policies_Get (policies query_only_policy) (ValueString (cip_Name (get_value policy_config)))
     = Inr query_only_policy \<and>
   map_option cip_Customer
     (State (CloudIdentityPolicyDataSource_Read (policies query_only_policy) policy_config))
     = Some (StringValue ''customers/C01'') \<and>
   map_option cip_Customer
     (State (CloudIdentityPolicyDataSource_Read (policies query_only_policy) policy_config))
     \<noteq> Some (StringValue (Policy_Customer query_only_policy))"
  by (simp add: CloudIdentityPolicyDataSource_Read_def policies_def query_only_policy_def
      policy_config_def HasError_def Let_def)

section \<open>Deleting a group\<close>

text \<open>
  C4. When the request decodes without an error: a delete the API answers with a 404
  error reports no error diagnostic (it adds nothing to the diagnostics of the
  decoding); a delete the API answers with any other error reports the error diagnostic
  \<open>Error Deleting Google Group\<close>; and when the first delete succeeds and the service
  afterwards answers the same key with a 404 error, neither the first nor the second
  delete reports an error.
\<close>

theorem Delete_not_found_is_success:
  assumes "\<not> HasError (get_diags req)"
  shows "(Groups_Delete srv (ValueString (grm_Id (get_value req))) = Some err \<and>
            errors_As err = Some 404 \<longrightarrow>
            \<not> HasError (Diagnostics (GroupResource_Delete srv req)) \<and>
            Diagnostics (GroupResource_Delete srv req) = Append [] (get_diags req)) \<and>
         (Groups_Delete srv (ValueString (grm_Id (get_value req))) = Some err \<and>
            errors_As err \<noteq> Some 404 \<longrightarrow>
            HasError (Diagnostics (GroupResource_Delete srv req)) \<and>
            ErrorDiagnostic ''Error Deleting Google Group''
              (''Could not delete group ID '' @ ValueString (grm_Id (get_value req)) @ '': ''
                 @ Error err)
              \<in> set (Diagnostics (GroupResource_Delete srv req))) \<and>
         (Groups_Delete srv (ValueString (grm_Id (get_value req))) = None \<and>
            Groups_Delete srv' (ValueString (grm_Id (get_value req))) = Some err \<and>
            errors_As err = Some 404 \<longrightarrow>
            \<not> HasError (Diagnostics (GroupResource_Delete srv req)) \<and>
            \<not> HasError (Diagnostics (GroupResource_Delete srv' req)))"
  using decoded_ok [OF assms]
  by (auto simp: GroupResource_Delete_def Let_def HasError_AddError AddError_member)

text \<open>
  Deleting the stored group and deleting it again from the then empty directory report
  no error; a directory that answers 403 makes the delete report one.
\<close>

theorem Delete_not_found_is_success_witness:
  "\<not> HasError (Diagnostics (GroupResource_Delete (directory (Some stored_group)) prior_state)) \<and>
   \<not> HasError (Diagnostics (GroupResource_Delete (directory None) prior_state)) \<and>
   Diagnostics (GroupResource_Delete (directory None) prior_state) = [] \<and>
   HasError (Diagnostics (GroupResource_Delete (failing forbidden) prior_state))"
proof -
  have ok: "\<not> HasError (get_diags prior_state)"
    by (simp add: prior_state_def HasError_def)
  have first: "Groups_Delete (directory (Some stored_group))
      (ValueString (grm_Id (get_value prior_state))) = None"
    by (simp add: directory_def stored_group_def prior_state_def)
  have second: "Groups_Delete (directory None)
      (ValueString (grm_Id (get_value prior_state))) = Some not_found"
    by (simp add: directory_def)
  have nf: "errors_As not_found = Some 404"
    by (simp add: not_found_def)
  have third: "Groups_Delete (failing forbidden)
      (ValueString (grm_Id (get_value prior_state))) = Some forbidden"
    by (simp add: failing_def)
  have fb: "errors_As forbidden \<noteq> Some 404"
    by (simp add: forbidden_def)
  show ?thesis
    using Delete_not_found_is_success [OF ok, of "directory (Some stored_group)" not_found
        "directory None"]
      Delete_not_found_is_success [OF ok, of "directory None" not_found "directory None"]
      Delete_not_found_is_success [OF ok, of "failing forbidden" forbidden "directory None"]
      first second nf third fb
    by (simp add: prior_state_def)
qed

section \<open>Creating and updating a group\<close>

text \<open>
  C5. When the plan decodes without an error and the insert succeeds, the record written
  to the state has the id of the API response, and its name, email and description are
  the values of the response, whatever the plan held.
\<close>

theorem Create_state_from_response:
  assumes "\<not> HasError (get_diags req)"
    and "Groups_Insert srv
           \<lparr>Group_Email = ValueString (grm_Email (get_value req)),
            Group_Name = ValueString (grm_Name (get_value req)),
            Group_Description = ValueString (grm_Description (get_value req)),
            Group_Id = []\<rparr> = Inr res"
  shows "State (GroupResource_Create srv req) =
           Some \<lparr>grm_Name = StringValue (Group_Name res),
                 grm_Email = StringValue (Group_Email res),
                 grm_Description = StringValue (Group_Description res),
                 grm_Id = StringValue (Group_Id res)\<rparr>"
  using assms(2) decoded_ok [OF assms(1)]
  by (simp add: GroupResource_Create_def Let_def)

text \<open>
  The plan leaves the description null and the id unknown; the state holds the empty
  description and the id \<open>03abc\<close> of the response.
\<close>

theorem Create_state_from_response_witness:
  "State (GroupResource_Create (directory None) create_plan) =
     Some \<lparr>grm_Name = StringValue ''team@vandebron.nl'',
           grm_Email = StringValue ''team@vandebron.nl'',
           grm_Description = StringValue [],
           grm_Id = StringValue ''03abc''\<rparr>"
proof -
  have ok: "\<not> HasError (get_diags create_plan)"
    by (simp add: create_plan_def HasError_def)
  have answer: "Groups_Insert (directory None)
      \<lparr>Group_Email = ValueString (grm_Email (get_value create_plan)),
       Group_Name = ValueString (grm_Name (get_value create_plan)),
       Group_Description = ValueString (grm_Description (get_value create_plan)),
       Group_Id = []\<rparr>
      = Inr \<lparr>Group_Email = ''team@vandebron.nl'', Group_Name = ''team@vandebron.nl'',
             Group_Description = [], Group_Id = ''03abc''\<rparr>"
    by (simp add: directory_def create_plan_def)
  show ?thesis
    using Create_state_from_response [OF ok answer] by simp
qed




section \<open>Credentials of the provider\<close>

text \<open>
  C7. When the configuration decodes without an error: a credentials file that cannot be
  read ends the process through \<^verbatim>\<open>log.Fatalf\<close>; a file that is read and does not parse
  as service-account JSON makes \<^verbatim>\<open>Configure\<close> return with the error diagnostic
  \<open>Unable to parse service account JSON\<close> and without a client.
\<close>

theorem Configure_unreadable_fatal_malformed_diagnostic:
  assumes "\<not> HasError (get_diags req)"
  shows "(ReadFile env (ValueString (Credentials (get_value req))) = Inl err \<longrightarrow>
            GoogleWorkspaceProvider_Configure env req =
              Fatalf (''Unable to read client secret file: '' @ Error err)) \<and>
         (ReadFile env (ValueString (Credentials (get_value req))) = Inr b \<and>
            JWTConfigFromJSON env b [AdminDirectoryGroupScope, AdminDirectoryUserScope] = Inl err
            \<longrightarrow>
            (\<exists>resp. GoogleWorkspaceProvider_Configure env req = Returned resp \<and>
               HasError (cfg_Diagnostics resp) \<and>
               ErrorDiagnostic ''Unable to parse service account JSON''
                 (''The provided credentials file is not valid JSON or missing fields: ''
                    @ Error err) \<in> set (cfg_Diagnostics resp) \<and>
               DataSourceData resp = None \<and> ResourceData resp = None))"
  using decoded_ok [OF assms]
  by (auto simp: GoogleWorkspaceProvider_Configure_def Let_def HasError_AddError
      AddError_member)

text \<open>The missing file is fatal; the file that holds only an opening brace is not.\<close>

theorem Configure_unreadable_fatal_malformed_diagnostic_witness:
  "GoogleWorkspaceProvider_Configure unreadable_file provider_config =
     Fatalf (''Unable to read client secret file: ''
               @ ''open credentials.json: no such file or directory'') \<and>
   (\<exists>resp. GoogleWorkspaceProvider_Configure malformed_file provider_config = Returned resp \<and>
      HasError (cfg_Diagnostics resp) \<and> DataSourceData resp = None \<and> ResourceData resp = None)"
proof -
  have ok: "\<not> HasError (get_diags provider_config)"
    by (simp add: provider_config_def HasError_def)
  have unreadable: "ReadFile unreadable_file (ValueString (Credentials (get_value provider_config)))
      = Inl (OtherError ''open credentials.json: no such file or directory'')"
    by (simp add: unreadable_file_def)
  have readable: "ReadFile malformed_file (ValueString (Credentials (get_value provider_config)))
      = Inr ''{''"
    by (simp add: malformed_file_def)
  have malformed: "JWTConfigFromJSON malformed_file ''{''
      [AdminDirectoryGroupScope, AdminDirectoryUserScope]
      = Inl (OtherError ''unexpected end of JSON input'')"
    by (simp add: malformed_file_def)
  show ?thesis
    using Configure_unreadable_fatal_malformed_diagnostic [OF ok, of unreadable_file
        "OtherError ''open credentials.json: no such file or directory''" "''{''"]
      Configure_unreadable_fatal_malformed_diagnostic [OF ok, of malformed_file
        "OtherError ''unexpected end of JSON input''" "''{''"]
      unreadable readable malformed
    by auto
qed

text \<open>
  For the file that holds only an opening brace, \<^verbatim>\<open>Configure\<close> returns this response;
  the process goes on.
\<close>

theorem Configure_malformed_returns_diagnostic:
  "GoogleWorkspaceProvider_Configure malformed_file provider_config =
     Returned \<lparr>cfg_Diagnostics =
                 [ErrorDiagnostic ''Unable to parse service account JSON''
                    (''The provided credentials file is not valid JSON or missing fields: ''
                       @ ''unexpected end of JSON input'')],
               DataSourceData = None, ResourceData = None\<rparr>"
  by (simp add: GoogleWorkspaceProvider_Configure_def malformed_file_def provider_config_def
      HasError_def AddError_def Let_def)

section \<open>Reading what was created\<close>

text \<open>
  C8. Let create write the record \<open>created\<close> from the response \<open>res\<close> of the insert. When
  the read that follows starts from that record and the API answers its get with the
  same \<open>res\<close>, the read writes \<open>created\<close> again: name, email, description and id agree.
\<close>

theorem Read_after_Create:
  assumes "State (GroupResource_Create srv plan) = Some created"
    and "Groups_Insert srv
           \<lparr>Group_Email = ValueString (grm_Email (get_value plan)),
            Group_Name = ValueString (grm_Name (get_value plan)),
            Group_Description = ValueString (grm_Description (get_value plan)),
            Group_Id = []\<rparr> = Inr res"
    and "\<not> HasError (get_diags prior)"
    and "get_value prior = created"
    and "Groups_Get srv' (ValueString (grm_Name created)) = Inr res"
  shows "State (GroupResource_Read srv' prior) = Some created \<and>
         created = \<lparr>grm_Name = StringValue (Group_Name res),
                    grm_Email = StringValue (Group_Email res),
                    grm_Description = StringValue (Group_Description res),
                    grm_Id = StringValue (Group_Id res)\<rparr>"
proof -
  have c: "created = \<lparr>grm_Name = StringValue (Group_Name res),
                    grm_Email = StringValue (Group_Email res),
                    grm_Description = StringValue (Group_Description res),
                    grm_Id = StringValue (Group_Id res)\<rparr>"
    using assms(1,2)
    by (auto simp: GroupResource_Create_def Let_def split: if_splits)
  have "State (GroupResource_Read srv' prior) = Some created"
    using assms(4,5) decoded_ok [OF assms(3)] c
    by (simp add: GroupResource_Read_def Let_def)
  with c show ?thesis by simp
qed

text \<open>
  Create against the empty directory, then read against the directory that holds the
  group as it was inserted.
\<close>

theorem Read_after_Create_witness:
  "State (GroupResource_Read (directory (Some (stored_group\<lparr>Group_Description := []\<rparr>)))
       \<lparr>get_diags = [],
        get_value = \<lparr>grm_Name = StringValue ''team@vandebron.nl'',
                      grm_Email = StringValue ''team@vandebron.nl'',
                      grm_Description = StringValue [],
                      grm_Id = StringValue ''03abc''\<rparr>\<rparr>)
     = State (GroupResource_Create (directory None) create_plan)"
proof -
  let ?created = "\<lparr>grm_Name = StringValue ''team@vandebron.nl'',
                    grm_Email = StringValue ''team@vandebron.nl'',
                    grm_Description = StringValue [],
                    grm_Id = StringValue ''03abc''\<rparr>"
  let ?res = "\<lparr>Group_Email = ''team@vandebron.nl'', Group_Name = ''team@vandebron.nl'',
               Group_Description = [], Group_Id = ''03abc''\<rparr>"
  have created: "State (GroupResource_Create (directory None) create_plan) = Some ?created"
    by (simp add: GroupResource_Create_def directory_def create_plan_def HasError_def Let_def)
  have inserted: "Groups_Insert (directory None)
      \<lparr>Group_Email = ValueString (grm_Email (get_value create_plan)),
       Group_Name = ValueString (grm_Name (get_value create_plan)),
       Group_Description = ValueString (grm_Description (get_value create_plan)),
       Group_Id = []\<rparr> = Inr ?res"
    by (simp add: directory_def create_plan_def)
  have ok: "\<not> HasError (get_diags \<lparr>get_diags = [], get_value = ?created\<rparr>)"
    by (simp add: HasError_def)
  have found: "Groups_Get (directory (Some (stored_group\<lparr>Group_Description := []\<rparr>)))
      (ValueString (grm_Name ?created)) = Inr ?res"
    by (simp add: directory_def stored_group_def)
  show ?thesis
    using Read_after_Create [OF created inserted ok _ found] created by simp
qed

section \<open>Where the id comes from\<close>

text \<open>
  C9. Every request body that create or update sends has its id unset, whatever id the
  plan holds; and the id of every record that create, update or read writes to the state
  is the id of the API response to that call.
\<close>

theorem Id_never_client_supplied:
  "(\<forall>c \<in> set (Calls (GroupResource_Create srv req)) \<union> set (Calls (GroupResource_Update srv req)).
      map_option Group_Id (call_body c) = Some []) \<and>
   (State (GroupResource_Create srv req) = Some r \<longrightarrow>
      (\<exists>res. Groups_Insert srv
                \<lparr>Group_Email = ValueString (grm_Email (get_value req)),
                 Group_Name = ValueString (grm_Name (get_value req)),
                 Group_Description = ValueString (grm_Description (get_value req)),
                 Group_Id = []\<rparr> = Inr res \<and>
              grm_Id r = StringValue (Group_Id res))) \<and>
   (State (GroupResource_Update srv req) = Some r \<longrightarrow>
      (\<exists>res. Groups_Update srv (ValueString (grm_Id (get_value req)))
                \<lparr>Group_Email = ValueString (grm_Email (get_value req)),
                 Group_Name = ValueString (grm_Name (get_value req)),
                 Group_Description = ValueString (grm_Description (get_value req)),
                 Group_Id = []\<rparr> = Inr res \<and>
              grm_Id r = StringValue (Group_Id res))) \<and>
   (State (GroupResource_Read srv req) = Some r \<longrightarrow>
      (\<exists>ng. Groups_Get srv (ValueString (grm_Name (get_value req))) = Inr ng \<and>
             grm_Id r = StringValue (Group_Id ng)))"
proof (intro conjI impI ballI)
  fix c
  assume "c \<in> set (Calls (GroupResource_Create srv req)) \<union>
              set (Calls (GroupResource_Update srv req))"
  then show "map_option Group_Id (call_body c) = Some []"
    by (auto simp: GroupResource_Create_def GroupResource_Update_def Let_def
        split: if_splits sum.splits)
next
  assume "State (GroupResource_Create srv req) = Some r"
  then show "\<exists>res. Groups_Insert srv
                \<lparr>Group_Email = ValueString (grm_Email (get_value req)),
                 Group_Name = ValueString (grm_Name (get_value req)),
                 Group_Description = ValueString (grm_Description (get_value req)),
                 Group_Id = []\<rparr> = Inr res \<and>
              grm_Id r = StringValue (Group_Id res)"
    by (auto simp: GroupResource_Create_def Let_def split: if_splits sum.splits)
next
  assume "State (GroupResource_Update srv req) = Some r"
  then show "\<exists>res. Groups_Update srv (ValueString (grm_Id (get_value req)))
                \<lparr>Group_Email = ValueString (grm_Email (get_value req)),
                 Group_Name = ValueString (grm_Name (get_value req)),
                 Group_Description = ValueString (grm_Description (get_value req)),
                 Group_Id = []\<rparr> = Inr res \<and>
              grm_Id r = StringValue (Group_Id res)"
    by (auto simp: GroupResource_Update_def Let_def split: if_splits sum.splits)
next
  assume "State (GroupResource_Read srv req) = Some r"
  from GroupResource_Read_success [OF this]
  show "\<exists>ng. Groups_Get srv (ValueString (grm_Name (get_value req))) = Inr ng \<and>
             grm_Id r = StringValue (Group_Id ng)"
    by auto
qed

text \<open>
  A plan that holds the id \<open>chosen-by-client\<close>: the body of the insert has no id, and the
  state holds \<open>03abc\<close>, the id the directory assigned.
\<close>

theorem Id_never_client_supplied_witness:
  "Calls (GroupResource_Create (directory None) forged_plan) =
     [Call_Groups_Insert \<lparr>Group_Email = ''ops@vandebron.nl'', Group_Name = ''ops@vandebron.nl'',
                          Group_Description = ''Ops'', Group_Id = []\<rparr>] \<and>
   map_option grm_Id (State (GroupResource_Create (directory None) forged_plan))
     = Some (StringValue ''03abc'')"
proof -
  have st: "State (GroupResource_Create (directory None) forged_plan) =
      Some \<lparr>grm_Name = StringValue ''ops@vandebron.nl'',
            grm_Email = StringValue ''ops@vandebron.nl'',
            grm_Description = StringValue ''Ops'', grm_Id = StringValue ''03abc''\<rparr>"
    by (simp add: GroupResource_Create_def directory_def forged_plan_def HasError_def Let_def)
  have calls: "Calls (GroupResource_Create (directory None) forged_plan) =
     [Call_Groups_Insert \<lparr>Group_Email = ''ops@vandebron.nl'', Group_Name = ''ops@vandebron.nl'',
                          Group_Description = ''Ops'', Group_Id = []\<rparr>]"
    by (simp add: GroupResource_Create_def directory_def forged_plan_def HasError_def Let_def)
  show ?thesis
    using Id_never_client_supplied [of "directory None" forged_plan] st calls by simp
qed

section \<open>The id of a policy\<close>

text \<open>
  C10. In the record of a successful policy read the id equals the name: both are the
  name of the policy in the API response.
\<close>

theorem Policy_id_equals_name:
  assumes "State (CloudIdentityPolicyDataSource_Read srv req) = Some r"
  shows "cip_Id r = cip_Name r \<and>
         (\<exists>policy. Policies_Get srv (ValueString (cip_Name (get_value req))) = Inr policy \<and>
            cip_Id r = StringValue (Policy_Name policy) \<and>
            cip_Name r = StringValue (Policy_Name policy))"
  using Policy_Read_success [OF assms] by auto

text \<open>The policy \<open>policies/abc\<close> is read with that id and that name.\<close>

theorem Policy_id_equals_name_witness:
  "map_option cip_Id
     (State (CloudIdentityPolicyDataSource_Read (policies full_policy) policy_config))
     = Some (StringValue ''policies/abc'') \<and>
   map_option cip_Name
     (State (CloudIdentityPolicyDataSource_Read (policies full_policy) policy_config))
     = Some (StringValue ''policies/abc'')"
  using Policy_id_equals_name [OF full_policy_read] full_policy_read by simp

end
